theory Spec2Isabelle
  imports Main "HOL-Library.Sublist"
begin

section \<open>Syntax trees\<close>

text \<open>
  The scripts work on the syntax tree of the TypeScript compiler API. The node kinds the
  scripts test for are constructors of their own; every other expression or statement kind
  is an \<open>Other\<close> node carrying a tag, its expression children and its statement children
  (statement children sit in node arrays: the statements of a function body, of a source
  file, of a case clause). Expressions and statements are mutually recursive because a
  function expression carries statements. A statement that is the single child of a node
  of another kind (the body of a loop) is not part of the model: what \<open>ts.visitEachChild\<close>
  does there when the visitor returns \<open>undefined\<close> is the library's affair.
\<close>

text \<open>
  An identifier node has the name it denotes (\<open>escapedText\<close>) and its source text
  (\<open>getText()\<close>); they differ when the identifier is written with a Unicode escape, as
  \<open>c\u006fnsole\<close> for \<open>console\<close>.
\<close>

datatype ident = Ident (escapedText: string) (getText: string)

text \<open>An identifier written without escapes.\<close>

abbreviation plain :: "string \<Rightarrow> ident" where
  "plain n \<equiv> Ident n n"

datatype expr =
    Identifier ident
  | PropertyAccessExpression expr ident
  | CallExpression expr "expr list"
  | OtherExpression string "expr list" "stmt list"
and stmt =
    IfStatement expr stmt "stmt option"
  | Block "stmt list"
  | ExpressionStatement expr
  | ReturnStatement "expr option"
  | OtherStatement string "expr list" "stmt list"

section \<open>clean1.js: the call classifier\<close>

definition REMOVABLE_FUNCTIONS :: "string list" where
  "REMOVABLE_FUNCTIONS =
     [''countEvent'', ''countRareEvent'', ''scopedProfileSectionStart'',
      ''scopedProfileSectionEnd'', ''profileSectionStart'', ''profileSectionEnd'',
      ''playbackLogNote'', ''debug'', ''info'']"

text \<open>
  \<open>expression.expression.getText() === 'console'\<close>: \<open>getText\<close> is the source text of the
  receiver without leading trivia. Only an identifier has a source text that is the single
  token \<open>console\<close>, and the comparison is with its source text, not with its name.
\<close>

fun getText_is_console :: "expr \<Rightarrow> bool" where
  "getText_is_console (Identifier n) = (getText n = ''console'')"
| "getText_is_console _ = False"

text \<open>\<open>methodName\<close> is \<open>expression.name.getText()\<close>, the source text of the property name.\<close>

fun shouldRemoveCall :: "expr \<Rightarrow> bool" where
  "shouldRemoveCall (CallExpression (PropertyAccessExpression obj name) args) =
     (let methodName = getText name
      in if getText_is_console obj \<and> methodName = ''log'' then True
         else if methodName \<in> set REMOVABLE_FUNCTIONS then True
         else False)"
| "shouldRemoveCall _ = False"

section \<open>clean1.js: the conditional rewriter\<close>

fun isExpressionStatement :: "stmt \<Rightarrow> bool" where
  "isExpressionStatement (ExpressionStatement e) = True"
| "isExpressionStatement _ = False"

text \<open>\<open>ts.isExpressionStatement(s) && shouldRemoveCall(s.expression)\<close>\<close>

fun isRemovableStatement :: "stmt \<Rightarrow> bool" where
  "isRemovableStatement (ExpressionStatement e) = shouldRemoveCall e"
| "isRemovableStatement _ = False"

text \<open>
  \<open>visit\<close> returns \<open>None\<close> where the script returns \<open>undefined\<close>. \<open>ts.visitEachChild\<close>
  applies the visitor to every child; in a node array a child visited to \<open>undefined\<close> is
  left out (\<open>visit_ss\<close>). The script's visitor is one function over all nodes; here it is
  split by the type of the node (\<open>visit_e\<close> for expressions, which match neither test of
  the visitor and so always go to \<open>ts.visitEachChild\<close>).
\<close>

fun visit :: "stmt \<Rightarrow> stmt option"
  and visit_ss :: "stmt list \<Rightarrow> stmt list"
  and visit_e :: "expr \<Rightarrow> expr"
  and visit_es :: "expr list \<Rightarrow> expr list" where
  "visit (IfStatement c thenS elseS) =
     (let thenStatement = visit thenS;
          elseStatement = (case elseS of None \<Rightarrow> None | Some s \<Rightarrow> visit s)
      in if isRemovableStatement thenS then elseStatement
         else
           let elseStatement' =
                 (if elseStatement \<noteq> None \<and>
                     (case elseS of None \<Rightarrow> False | Some s \<Rightarrow> isRemovableStatement s)
                  then None else elseStatement)
           in (case thenStatement of
                 None \<Rightarrow> elseStatement'
               | Some t \<Rightarrow> Some (IfStatement c t elseStatement')))"
| "visit (ExpressionStatement e) =
     (if shouldRemoveCall e then None else Some (ExpressionStatement (visit_e e)))"
| "visit (Block ss) = Some (Block (visit_ss ss))"
| "visit (ReturnStatement None) = Some (ReturnStatement None)"
| "visit (ReturnStatement (Some e)) = Some (ReturnStatement (Some (visit_e e)))"
| "visit (OtherStatement k es ss) = Some (OtherStatement k (visit_es es) (visit_ss ss))"
| "visit_ss [] = []"
| "visit_ss (s # ss) = (case visit s of None \<Rightarrow> visit_ss ss | Some s' \<Rightarrow> s' # visit_ss ss)"
| "visit_e (Identifier n) = Identifier n"
| "visit_e (PropertyAccessExpression e n) = PropertyAccessExpression (visit_e e) n"
| "visit_e (CallExpression f as) = CallExpression (visit_e f) (visit_es as)"
| "visit_e (OtherExpression k es ss) = OtherExpression k (visit_es es) (visit_ss ss)"
| "visit_es [] = []"
| "visit_es (e # es) = visit_e e # visit_es es"

text \<open>The source file is a node whose statements are a node array.\<close>

definition rewriteSourceFile :: "stmt list \<Rightarrow> stmt list" where
  "rewriteSourceFile statements = visit_ss statements"

section \<open>clean1.js: the blank-line filter\<close>

text \<open>
  The text operations of \<open>removeCommentsAndEmptyLines\<close> after printing:
  \<open>printed.split('\n').filter(line => line.includes('eslint') || line.trim().length > 0).join('\n')\<close>.
  A character is a code unit below 256; \<open>isWhiteSpace\<close> lists the code units of that
  range that \<open>String.prototype.trim\<close> strips (white space and line terminators).
\<close>

definition newline :: char where
  "newline = CHR 0x0A"

fun split_nl :: "string \<Rightarrow> string list" where
  "split_nl [] = [[]]"
| "split_nl (c # cs) =
     (if c = newline then [] # split_nl cs
      else (case split_nl cs of [] \<Rightarrow> [[c]] | l # ls \<Rightarrow> (c # l) # ls))"

fun join_nl :: "string list \<Rightarrow> string" where
  "join_nl [] = []"
| "join_nl [l] = l"
| "join_nl (l # ls) = l @ newline # join_nl ls"

fun includes_str :: "string \<Rightarrow> string \<Rightarrow> bool" where
  "includes_str [] searchString = (searchString = [])"
| "includes_str (c # cs) searchString =
     (prefix searchString (c # cs) \<or> includes_str cs searchString)"

definition isWhiteSpace :: "char \<Rightarrow> bool" where
  "isWhiteSpace c =
     (c \<in> set [CHR 0x09, CHR 0x0A, CHR 0x0B, CHR 0x0C, CHR 0x0D, CHR 0x20, CHR 0xA0])"

definition trim :: "string \<Rightarrow> string" where
  "trim s = rev (dropWhile isWhiteSpace (rev (dropWhile isWhiteSpace s)))"

definition keepLine :: "string \<Rightarrow> bool" where
  "keepLine line = (includes_str line ''eslint'' \<or> length (trim line) > 0)"

definition filterEmptyLines :: "string \<Rightarrow> string" where
  "filterEmptyLines printed = join_nl (filter keepLine (split_nl printed))"

text \<open>
  The filter in the words of the specification: a line is dropped iff it contains no
  marker and consists of white space only.
\<close>

definition spec_dropLine :: "string \<Rightarrow> bool" where
  "spec_dropLine line =
     ((\<nexists>before after. line = before @ ''eslint'' @ after) \<and> (\<forall>c \<in> set line. isWhiteSpace c))"

section \<open>The file drivers\<close>

text \<open>
  The file system is a map from paths to contents; the state also records every call of
  \<open>fs.writeFileSync\<close> and every console line. Reading a missing file throws, and so may
  the transformation (the parser and the printer are the TypeScript library's): the
  transformation is a parameter that returns \<open>None\<close> where it throws. Both drivers catch
  the exception and log it.
\<close>

datatype logLine =
    Processed string
  | Transformed string
  | WouldTransform string string
  | Skipped string
  | ErrorProcessing string

record fsState =
  files :: "string \<rightharpoonup> string"
  writes :: "(string \<times> string) list"
  console :: "logLine list"

definition writeFileSync :: "string \<Rightarrow> string \<Rightarrow> fsState \<Rightarrow> fsState" where
  "writeFileSync filePath content st =
     st\<lparr>files := (files st)(filePath \<mapsto> content), writes := writes st @ [(filePath, content)]\<rparr>"

definition consoleLog :: "logLine \<Rightarrow> fsState \<Rightarrow> fsState" where
  "consoleLog l st = st\<lparr>console := console st @ [l]\<rparr>"

text \<open>clean1.js, \<open>processFile(filePath)\<close>: the transformed text is always written.\<close>

definition processFile1 :: "(string \<Rightarrow> string option) \<Rightarrow> string \<Rightarrow> fsState \<Rightarrow> fsState" where
  "processFile1 transformCode filePath st =
     (case files st filePath of
        None \<Rightarrow> consoleLog (ErrorProcessing filePath) st
      | Some sourceText \<Rightarrow>
          (case transformCode sourceText of
             None \<Rightarrow> consoleLog (ErrorProcessing filePath) st
           | Some transformedCode \<Rightarrow>
               consoleLog (Processed filePath) (writeFileSync filePath transformedCode st)))"

text \<open>
  clean3.js, \<open>processFile(filePath, dryRun)\<close> (the second block simplifier script has the
  same function word for word).
\<close>

definition processFile :: "(string \<Rightarrow> string option) \<Rightarrow> string \<Rightarrow> bool \<Rightarrow> fsState \<Rightarrow> fsState" where
  "processFile transformCode filePath dryRun st =
     (case files st filePath of
        None \<Rightarrow> consoleLog (ErrorProcessing filePath) st
      | Some sourceCode \<Rightarrow>
          (case transformCode sourceCode of
             None \<Rightarrow> consoleLog (ErrorProcessing filePath) st
           | Some transformed \<Rightarrow>
               if sourceCode \<noteq> transformed then
                 (if dryRun then consoleLog (WouldTransform filePath transformed) st
                  else consoleLog (Transformed filePath) (writeFileSync filePath transformed st))
               else consoleLog (Skipped filePath) st))"

section \<open>clean3.js: the block simplifier\<close>

fun isReturnStatement :: "stmt \<Rightarrow> bool" where
  "isReturnStatement (ReturnStatement e) = True"
| "isReturnStatement _ = False"

text \<open>\<open>ts.isBlock(s)\<close>, with the statements of the block.\<close>

fun blockStatements :: "stmt \<Rightarrow> stmt list option" where
  "blockStatements (Block ss) = Some ss"
| "blockStatements _ = None"

text \<open>
  \<open>statements.length === 1\<close> and \<open>statements[0]\<close> is an expression statement or a return
  statement.
\<close>

fun singleSimpleStatement :: "stmt list \<Rightarrow> stmt option" where
  "singleSimpleStatement [singleStatement] =
     (if isExpressionStatement singleStatement \<or> isReturnStatement singleStatement
      then Some singleStatement else None)"
| "singleSimpleStatement _ = None"

text \<open>
  The visitor reads \<open>node.parent\<close> to see whether a block is the else branch of an if
  statement. Parents are those of the original tree, so the flag \<open>isElse\<close> is passed down:
  true exactly when the visited node is the \<open>elseStatement\<close> of its parent. The visitor
  never returns \<open>undefined\<close>.
\<close>

fun visit3 :: "bool \<Rightarrow> stmt \<Rightarrow> stmt"
  and visit3_ss :: "stmt list \<Rightarrow> stmt list"
  and visit3_e :: "expr \<Rightarrow> expr"
  and visit3_es :: "expr list \<Rightarrow> expr list" where
  "visit3 isElse (IfStatement c thenS elseS) =
     (case (case blockStatements thenS of None \<Rightarrow> None
            | Some ss \<Rightarrow> singleSimpleStatement ss) of
        Some singleStatement \<Rightarrow>
          IfStatement c singleStatement
            (case elseS of None \<Rightarrow> None | Some s \<Rightarrow> Some (visit3 True s))
      | None \<Rightarrow>
          IfStatement (visit3_e c) (visit3 False thenS)
            (case elseS of None \<Rightarrow> None | Some s \<Rightarrow> Some (visit3 True s)))"
| "visit3 isElse (Block ss) =
     (case (if isElse then singleSimpleStatement ss else None) of
        Some singleStatement \<Rightarrow> singleStatement
      | None \<Rightarrow> Block (visit3_ss ss))"
| "visit3 isElse (ExpressionStatement e) = ExpressionStatement (visit3_e e)"
| "visit3 isElse (ReturnStatement None) = ReturnStatement None"
| "visit3 isElse (ReturnStatement (Some e)) = ReturnStatement (Some (visit3_e e))"
| "visit3 isElse (OtherStatement k es ss) = OtherStatement k (visit3_es es) (visit3_ss ss)"
| "visit3_ss [] = []"
| "visit3_ss (s # ss) = visit3 False s # visit3_ss ss"
| "visit3_e (Identifier n) = Identifier n"
| "visit3_e (PropertyAccessExpression e n) = PropertyAccessExpression (visit3_e e) n"
| "visit3_e (CallExpression f as) = CallExpression (visit3_e f) (visit3_es as)"
| "visit3_e (OtherExpression k es ss) = OtherExpression k (visit3_es es) (visit3_ss ss)"
| "visit3_es [] = []"
| "visit3_es (e # es) = visit3_e e # visit3_es es"

section \<open>clean3.js: the text pass after printing\<close>

text \<open>
  \<open>postProcessCode\<close> is four global replacements by regular expressions. The expressions
  use literals, character classes, greedy and lazy repetition of a character class,
  sequence, alternative and capture groups that are not nested. \<open>rmatch r s\<close> lists the
  ways \<open>r\<close> matches a prefix of \<open>s\<close> in the order a backtracking matcher tries them, each
  with the captures and the text left; the match of the expression is the first one.
\<close>

datatype regex =
    Lit string
  | Class "char \<Rightarrow> bool"
  | Many "char \<Rightarrow> bool"
  | Many1 "char \<Rightarrow> bool"
  | Few "char \<Rightarrow> bool"
  | Seq regex regex
  | Alt regex regex
  | Group regex

text \<open>The texts left by \<open>p*\<close>, longest repetition first.\<close>

fun many_greedy :: "(char \<Rightarrow> bool) \<Rightarrow> string \<Rightarrow> string list" where
  "many_greedy p [] = [[]]"
| "many_greedy p (c # cs) = (if p c then many_greedy p cs @ [c # cs] else [c # cs])"

fun rmatch :: "regex \<Rightarrow> string \<Rightarrow> (string list \<times> string) list" where
  "rmatch (Lit l) s = (if prefix l s then [([], drop (length l) s)] else [])"
| "rmatch (Class p) s = (case s of [] \<Rightarrow> [] | c # cs \<Rightarrow> if p c then [([], cs)] else [])"
| "rmatch (Many p) s = map (\<lambda>rest. ([], rest)) (many_greedy p s)"
| "rmatch (Many1 p) s =
     (case s of [] \<Rightarrow> []
      | c # cs \<Rightarrow> if p c then map (\<lambda>rest. ([], rest)) (many_greedy p cs) else [])"
| "rmatch (Few p) s = map (\<lambda>rest. ([], rest)) (rev (many_greedy p s))"
| "rmatch (Seq a b) s =
     concat (map (\<lambda>(caps, rest). map (\<lambda>(caps', rest'). (caps @ caps', rest')) (rmatch b rest))
                 (rmatch a s))"
| "rmatch (Alt a b) s = rmatch a s @ rmatch b s"
| "rmatch (Group a) s =
     map (\<lambda>(caps, rest). (caps @ [take (length s - length rest) s], rest)) (rmatch a s)"

fun seqs :: "regex list \<Rightarrow> regex" where
  "seqs [] = Lit []"
| "seqs [r] = r"
| "seqs (r # rs) = Seq r (seqs rs)"

text \<open>
  \<open>String.prototype.replace\<close> with a global expression: the text is scanned from the left;
  where the expression matches, the replacement (a function of the captures) is put out
  and the scan goes on after the match (one character further after an empty match). The
  counter is the number of characters of the last match still to be passed over.
\<close>

fun replace_g :: "regex \<Rightarrow> (string list \<Rightarrow> string) \<Rightarrow> nat \<Rightarrow> string \<Rightarrow> string" where
  "replace_g r f (Suc k) [] = []"
| "replace_g r f 0 [] = (case rmatch r [] of [] \<Rightarrow> [] | (caps, rest) # _ \<Rightarrow> f caps)"
| "replace_g r f (Suc k) (c # cs) = replace_g r f k cs"
| "replace_g r f 0 (c # cs) =
     (case rmatch r (c # cs) of
        [] \<Rightarrow> c # replace_g r f 0 cs
      | (caps, rest) # _ \<Rightarrow>
          (let n = length (c # cs) - length rest
           in if n = 0 then f caps @ c # replace_g r f 0 cs
              else f caps @ replace_g r f (n - 1) cs))"

definition replaceAll :: "regex \<Rightarrow> (string list \<Rightarrow> string) \<Rightarrow> string \<Rightarrow> string" where
  "replaceAll r f s = replace_g r f 0 s"

text \<open>
  The character classes, on code units below 256: \<open>\s\<close> is \<open>isWhiteSpace\<close>, \<open>.\<close> is any
  character but a line terminator.
\<close>

definition isDot :: "char \<Rightarrow> bool" where
  "isDot c = (c \<noteq> CHR 0x0A \<and> c \<noteq> CHR 0x0D)"

definition isIdentStart :: "char \<Rightarrow> bool" where
  "isIdentStart c = (c \<in> set ''abcdefghijklmnopqrstuvwxyzABCDEFGHIJKLMNOPQRSTUVWXYZ_'')"

definition isIdentPart :: "char \<Rightarrow> bool" where
  "isIdentPart c = (isIdentStart c \<or> c \<in> set ''0123456789'')"

text \<open>\<open>(return|[a-zA-Z_][a-zA-Z0-9_]*\s*=)\<close>\<close>

definition returnOrAssignment :: regex where
  "returnOrAssignment =
     Group (Alt (Lit ''return'')
                (seqs [Class isIdentStart, Many isIdentPart, Many isWhiteSpace, Lit ''='']))"

text \<open>\<open>/if\s*\((.*?)\)\s*\n\s*(return|[a-zA-Z_][a-zA-Z0-9_]*\s*=)/g\<close>\<close>

definition ifLineBreak :: regex where
  "ifLineBreak =
     seqs [Lit ''if'', Many isWhiteSpace, Lit ''('', Group (Few isDot), Lit '')'',
           Many isWhiteSpace, Lit [newline], Many isWhiteSpace, returnOrAssignment]"

text \<open>\<open>/else\s*\n\s*(return|[a-zA-Z_][a-zA-Z0-9_]*\s*=)/g\<close>\<close>

definition elseLineBreak :: regex where
  "elseLineBreak =
     seqs [Lit ''else'', Many isWhiteSpace, Lit [newline], Many isWhiteSpace, returnOrAssignment]"

text \<open>\<open>/\n\s*\n+/g\<close>\<close>

definition blankLines :: regex where
  "blankLines = seqs [Lit [newline], Many isWhiteSpace, Many1 (\<lambda>c. c = newline)]"

text \<open>\<open>/\n\s+(if|else|return)/g\<close>\<close>

definition indentedKeyword :: regex where
  "indentedKeyword =
     seqs [Lit [newline], Many1 isWhiteSpace,
           Group (Alt (Lit ''if'') (Alt (Lit ''else'') (Lit ''return'')))]"

text \<open>\<open>$1\<close> and \<open>$2\<close>: the first and the second capture.\<close>

fun capture1 :: "string list \<Rightarrow> string" where
  "capture1 (g # gs) = g"
| "capture1 [] = []"

fun capture2 :: "string list \<Rightarrow> string" where
  "capture2 (g # g' # gs) = g'"
| "capture2 _ = []"

definition postProcessCode :: "string \<Rightarrow> string" where
  "postProcessCode code =
     replaceAll indentedKeyword (\<lambda>caps. newline # capture1 caps)
       (replaceAll blankLines (\<lambda>caps. [newline, newline])
          (replaceAll elseLineBreak (\<lambda>caps. ''else '' @ capture1 caps)
             (replaceAll ifLineBreak
                (\<lambda>caps. ''if ('' @ capture1 caps @ '') '' @ capture2 caps) code)))"

section \<open>The second block simplifier script\<close>

text \<open>
  The unnamed script has the visitor of clean3.js without the test on the kind of the
  single statement: \<open>statements.length === 1\<close> alone decides.
\<close>

fun singleStatement2 :: "stmt list \<Rightarrow> stmt option" where
  "singleStatement2 [singleStatement] = Some singleStatement"
| "singleStatement2 _ = None"

fun visit2 :: "bool \<Rightarrow> stmt \<Rightarrow> stmt"
  and visit2_ss :: "stmt list \<Rightarrow> stmt list"
  and visit2_e :: "expr \<Rightarrow> expr"
  and visit2_es :: "expr list \<Rightarrow> expr list" where
  "visit2 isElse (IfStatement c thenS elseS) =
     (case (case blockStatements thenS of None \<Rightarrow> None
            | Some ss \<Rightarrow> singleStatement2 ss) of
        Some singleStatement \<Rightarrow>
          IfStatement c singleStatement
            (case elseS of None \<Rightarrow> None | Some s \<Rightarrow> Some (visit2 True s))
      | None \<Rightarrow>
          IfStatement (visit2_e c) (visit2 False thenS)
            (case elseS of None \<Rightarrow> None | Some s \<Rightarrow> Some (visit2 True s)))"
| "visit2 isElse (Block ss) =
     (case (if isElse then singleStatement2 ss else None) of
        Some singleStatement \<Rightarrow> singleStatement
      | None \<Rightarrow> Block (visit2_ss ss))"
| "visit2 isElse (ExpressionStatement e) = ExpressionStatement (visit2_e e)"
| "visit2 isElse (ReturnStatement None) = ReturnStatement None"
| "visit2 isElse (ReturnStatement (Some e)) = ReturnStatement (Some (visit2_e e))"
| "visit2 isElse (OtherStatement k es ss) = OtherStatement k (visit2_es es) (visit2_ss ss)"
| "visit2_ss [] = []"
| "visit2_ss (s # ss) = visit2 False s # visit2_ss ss"
| "visit2_e (Identifier n) = Identifier n"
| "visit2_e (PropertyAccessExpression e n) = PropertyAccessExpression (visit2_e e) n"
| "visit2_e (CallExpression f as) = CallExpression (visit2_e f) (visit2_es as)"
| "visit2_e (OtherExpression k es ss) = OtherExpression k (visit2_es es) (visit2_ss ss)"
| "visit2_es [] = []"
| "visit2_es (e # es) = visit2_e e # visit2_es es"

section \<open>Notions used by the properties\<close>

text \<open>The rewritten else branch of an if statement (absent when there is none).\<close>

definition visit_else :: "stmt option \<Rightarrow> stmt option" where
  "visit_else elseS = (case elseS of None \<Rightarrow> None | Some s \<Rightarrow> visit s)"




text \<open>
  Dangling else. A statement is open when, printed without braces, it ends in an if
  statement that has no else branch: an \<open>else\<close> printed after it would be read as the else
  branch of that inner if statement. A tree is free of dangling else when no if statement
  that has an else branch has an open then branch.
\<close>

fun open_if :: "stmt \<Rightarrow> bool" where
  "open_if (IfStatement c t None) = True"
| "open_if (IfStatement c t (Some e)) = open_if e"
| "open_if (Block ss) = False"
| "open_if (ExpressionStatement e) = False"
| "open_if (ReturnStatement e) = False"
| "open_if (OtherStatement k es ss) = False"

fun dangling_free :: "stmt \<Rightarrow> bool"
  and dangling_free_ss :: "stmt list \<Rightarrow> bool"
  and dangling_free_e :: "expr \<Rightarrow> bool"
  and dangling_free_es :: "expr list \<Rightarrow> bool" where
  "dangling_free (IfStatement c t None) = (dangling_free_e c \<and> dangling_free t)"
| "dangling_free (IfStatement c t (Some e)) =
     (dangling_free_e c \<and> dangling_free t \<and> \<not> open_if t \<and> dangling_free e)"
| "dangling_free (Block ss) = dangling_free_ss ss"
| "dangling_free (ExpressionStatement e) = dangling_free_e e"
| "dangling_free (ReturnStatement None) = True"
| "dangling_free (ReturnStatement (Some e)) = dangling_free_e e"
| "dangling_free (OtherStatement k es ss) = (dangling_free_es es \<and> dangling_free_ss ss)"
| "dangling_free_ss [] = True"
| "dangling_free_ss (s # ss) = (dangling_free s \<and> dangling_free_ss ss)"
| "dangling_free_e (Identifier n) = True"
| "dangling_free_e (PropertyAccessExpression e n) = dangling_free_e e"
| "dangling_free_e (CallExpression f as) = (dangling_free_e f \<and> dangling_free_es as)"
| "dangling_free_e (OtherExpression k es ss) = (dangling_free_es es \<and> dangling_free_ss ss)"
| "dangling_free_es [] = True"
| "dangling_free_es (e # es) = (dangling_free_e e \<and> dangling_free_es es)"

subsection \<open>The trees of the examples\<close>

text \<open>The identifier \<open>console\<close> written \<open>c\u006fnsole\<close>.\<close>

definition backslash :: char where
  "backslash = CHR 0x5C"

definition console_escaped :: ident where
  "console_escaped = Ident ''console'' (''c'' @ backslash # ''u006fnsole'')"

definition call :: "string \<Rightarrow> expr" where
  "call f = CallExpression (Identifier (plain f)) []"

text \<open>\<open>console.log(a)\<close>, as an expression and as a statement.\<close>

definition console_log_a :: expr where
  "console_log_a =
     CallExpression (PropertyAccessExpression (Identifier (plain ''console'')) (plain ''log'')) [Identifier (plain ''a'')]"

definition log_a :: stmt where
  "log_a = ExpressionStatement console_log_a"

definition doWork :: stmt where
  "doWork = ExpressionStatement (call ''doWork'')"



text \<open>\<open>if (b) console.log(a);\<close>\<close>

definition if_b_log :: stmt where
  "if_b_log = IfStatement (Identifier (plain ''b'')) log_a None"

text \<open>\<open>if (b) foo();\<close> and \<open>if (a) { if (b) foo(); } else bar();\<close>\<close>

definition if_b_foo :: stmt where
  "if_b_foo = IfStatement (Identifier (plain ''b'')) (ExpressionStatement (call ''foo'')) None"

definition if_a_block_else_bar :: stmt where
  "if_a_block_else_bar =
     IfStatement (Identifier (plain ''a'')) (Block [if_b_foo]) (Some (ExpressionStatement (call ''bar'')))"

text \<open>\<open>function () { if (b) { bar(); } }\<close> and \<open>if (a) { foo(function () { ... }); }\<close>\<close>

definition callback :: expr where
  "callback =
     OtherExpression ''FunctionExpression'' []
       [IfStatement (Identifier (plain ''b'')) (Block [ExpressionStatement (call ''bar'')]) None]"

definition if_a_foo_callback :: stmt where
  "if_a_foo_callback =
     IfStatement (Identifier (plain ''a''))
       (Block [ExpressionStatement (CallExpression (Identifier (plain ''foo'')) [callback])]) None"



text \<open>A transformation that returns its input: what the scripts compute on a file they leave alone.\<close>

definition unchangedCode :: "string \<Rightarrow> string option" where
  "unchangedCode sourceCode = Some sourceCode"

definition oneFile :: fsState where
  "oneFile = \<lparr>files = [''a.ts'' \<mapsto> ''x();''], writes = [], console = []\<rparr>"

section \<open>Properties of the call classifier\<close>

text \<open>
  C9, as the claim states it, fails: the script compares source texts, not names. In
  \<open>c\u006fnsole.log(a)\<close> the receiver is the identifier \<open>console\<close>, written with an
  escape, and the method is \<open>log\<close>; its source text is not \<open>console\<close> and the call is
  not removable.
\<close>

theorem escaped_console_log_not_removable:
  "escapedText console_escaped = ''console''
   \<and> \<not> shouldRemoveCall
         (CallExpression (PropertyAccessExpression (Identifier console_escaped) (plain ''log''))
            [Identifier (plain ''a'')])"
  by (simp add: console_escaped_def backslash_def REMOVABLE_FUNCTIONS_def)

text \<open>
  C9, amended: \<open>shouldRemoveCall\<close> is a total predicate; on a call expression it is true
  exactly when the callee is a property access \<open>X.method\<close> where \<open>X\<close> is an identifier whose
  source text is \<open>console\<close> and the source text of \<open>method\<close> is \<open>log\<close>, or the source
  text of \<open>method\<close> is in the list of removable names whatever \<open>X\<close> is; it is false when
  the callee is a bare identifier, also one whose name is in the list.
\<close>

theorem shouldRemoveCall_iff:
  "shouldRemoveCall (CallExpression callee args) =
     (\<exists>X method. callee = PropertyAccessExpression X method \<and>
        ((\<exists>n. X = Identifier n \<and> getText n = ''console'') \<and> getText method = ''log''
         \<or> getText method \<in> set REMOVABLE_FUNCTIONS))
   \<and> \<not> shouldRemoveCall (CallExpression (Identifier n) args)"
proof -
  have c: "getText_is_console X = (\<exists>n. X = Identifier n \<and> getText n = ''console'')" for X
    by (cases X) auto
  show ?thesis
    by (cases callee) (auto simp: c Let_def)
qed

theorem shouldRemoveCall_iff_witness:
  "shouldRemoveCall console_log_a
   \<and> shouldRemoveCall (CallExpression (PropertyAccessExpression (call ''x'') (plain ''debug'')) [])
   \<and> \<not> shouldRemoveCall (CallExpression (Identifier (plain ''debug'')) [])"
  using shouldRemoveCall_iff
          [of "PropertyAccessExpression (Identifier (plain ''console'')) (plain ''log'')"
              "[Identifier (plain ''a'')]" "plain ''debug''"]
        shouldRemoveCall_iff
          [of "PropertyAccessExpression (call ''x'') (plain ''debug'')" "[]" "plain ''debug''"]
        shouldRemoveCall_iff [of "Identifier (plain ''debug'')" "[]" "plain ''debug''"]
  by (simp add: console_log_a_def REMOVABLE_FUNCTIONS_def)

section \<open>Properties of the conditional rewriter\<close>

lemma isRemovable_visit_None: "isRemovableStatement s \<Longrightarrow> visit s = None"
  by (cases s) auto

lemma visit_Some_not_removable: "visit s = Some s' \<Longrightarrow> \<not> isRemovableStatement s"
  by (cases s) (auto split: if_splits)

text \<open>
  The if rule in one equation: the second test of the script (an else branch that is a
  removable call) changes nothing, since such an else branch is already visited to
  \<open>undefined\<close>.
\<close>

lemma visit_If:
  "visit (IfStatement c thenS elseS) =
     (if isRemovableStatement thenS then visit_else elseS
      else case visit thenS of None \<Rightarrow> visit_else elseS
           | Some t \<Rightarrow> Some (IfStatement c t (visit_else elseS)))"
  by (cases elseS)
     (auto simp: visit_else_def Let_def isRemovable_visit_None split: option.splits)

text \<open>
  The two tests of the script on the branches of an if statement, for branches that are
  written without braces: a then branch that is a removable call makes the if statement
  collapse to its rewritten else branch, an else branch that is a removable call is
  dropped.
\<close>

lemma unbraced_then_call_collapses:
  "isRemovableStatement thenS \<Longrightarrow>
   visit (IfStatement c thenS elseS) = (case elseS of None \<Rightarrow> None | Some s \<Rightarrow> visit s)"
  by simp

lemma unbraced_else_call_dropped:
  "\<not> isRemovableStatement thenS \<Longrightarrow> isRemovableStatement elseS \<Longrightarrow>
   visit (IfStatement c thenS (Some elseS)) =
     (case visit thenS of None \<Rightarrow> None | Some t \<Rightarrow> Some (IfStatement c t None))"
  by (simp add: isRemovable_visit_None split: option.splits)

lemma unbraced_examples:
  "visit (IfStatement (Identifier (plain ''c'')) log_a (Some (Block [doWork]))) = Some (Block [doWork])"
  "visit (IfStatement (Identifier (plain ''c'')) doWork (Some log_a))
     = Some (IfStatement (Identifier (plain ''c'')) doWork None)"
  by (simp_all add: log_a_def console_log_a_def doWork_def call_def)

text \<open>
  C1: an if statement whose then branch consists of a removable call alone is replaced by
  its rewritten else branch, the condition being dropped, as in
  \<open>if (c) { console.log(a) } else { doWork() }\<close>. On that input the script does not: the
  then branch is a block, the block is rewritten to an empty block, which is not
  \<open>undefined\<close>, and the if statement stays with its condition and an empty then branch.
\<close>

theorem braced_then_call_keeps_if:
  "visit (IfStatement (Identifier (plain ''c'')) (Block [log_a]) (Some (Block [doWork])))
     = Some (IfStatement (Identifier (plain ''c'')) (Block []) (Some (Block [doWork])))
   \<and> visit (IfStatement (Identifier (plain ''c'')) (Block [log_a]) (Some (Block [doWork])))
     \<noteq> visit (Block [doWork])"
  by (simp add: log_a_def console_log_a_def doWork_def call_def)

text \<open>
  C2: a block whose statements are all removed should count as absent, so that
  \<open>if (c) { console.log(a) }\<close> vanishes. The script rewrites the block to an empty block
  and keeps the if statement around it.
\<close>

theorem braced_sole_call_leaves_empty_block:
  "visit (IfStatement (Identifier (plain ''c'')) (Block [log_a]) None)
     = Some (IfStatement (Identifier (plain ''c'')) (Block []) None)"
  by (simp add: log_a_def console_log_a_def)

text \<open>
  C3: an else branch that consists of a removable call alone is dropped and the rewritten
  then branch is kept, as in \<open>if (c) doWork(); else { console.log(a) }\<close>, which should
  become \<open>if (c) doWork();\<close>. On that input the script does not: the else branch is a
  block, it is rewritten to an empty block and stays.
\<close>

theorem braced_else_call_keeps_else:
  "visit (IfStatement (Identifier (plain ''c'')) doWork (Some (Block [log_a])))
     = Some (IfStatement (Identifier (plain ''c'')) doWork (Some (Block [])))
   \<and> visit (IfStatement (Identifier (plain ''c'')) doWork (Some (Block [log_a])))
     \<noteq> Some (IfStatement (Identifier (plain ''c'')) doWork None)"
  by (simp add: log_a_def console_log_a_def doWork_def call_def)

text \<open>
  C8: no if statement is built without a then branch. When the then branch is rewritten
  to nothing, the if statement is replaced by its rewritten else branch, which is nothing
  when there is no else branch or when it is removed too; when the then branch is
  rewritten to a statement, the if statement that is built carries that statement.
\<close>

theorem if_never_built_without_then:
  "(visit thenS = None \<longrightarrow>
      visit (IfStatement c thenS elseS) = (case elseS of None \<Rightarrow> None | Some s \<Rightarrow> visit s))
   \<and> (\<forall>t. visit thenS = Some t \<longrightarrow>
         (\<exists>e. visit (IfStatement c thenS elseS) = Some (IfStatement c t e)))"
  by (auto simp: Let_def isRemovable_visit_None dest: visit_Some_not_removable
      split: option.splits)

theorem if_never_built_without_then_witness:
  "visit if_b_log = None
   \<and> visit (IfStatement (Identifier (plain ''a'')) if_b_log (Some doWork)) = Some doWork
   \<and> visit (IfStatement (Identifier (plain ''a'')) if_b_log None) = None
   \<and> visit doWork = Some doWork
   \<and> (\<exists>e. visit (IfStatement (Identifier (plain ''a'')) doWork (Some log_a))
            = Some (IfStatement (Identifier (plain ''a'')) doWork e))"
  using if_never_built_without_then [of if_b_log "Identifier (plain ''a'')" "Some doWork"]
    if_never_built_without_then [of if_b_log "Identifier (plain ''a'')" None]
    if_never_built_without_then [of doWork "Identifier (plain ''a'')" "Some log_a"]
  by (simp add: if_b_log_def log_a_def console_log_a_def doWork_def call_def)

subsection \<open>Expressions\<close>

lemma shouldRemoveCall_visit_e: "shouldRemoveCall (visit_e e) = shouldRemoveCall e"
proof (cases e)
  case (CallExpression f as)
  then show ?thesis
  proof (cases f)
    case (PropertyAccessExpression obj m)
    with CallExpression show ?thesis by (cases obj) auto
  qed auto
qed auto









subsection \<open>Rewriting twice\<close>

lemma visit_idem:
  "\<forall>s'. visit s = Some s' \<longrightarrow> visit s' = Some s'"
  "visit_ss (visit_ss ss) = visit_ss ss"
  "visit_e (visit_e e) = visit_e e"
  "visit_es (visit_es es) = visit_es es"
proof (induction s and ss and e and es rule: visit_visit_ss_visit_e_visit_es.induct)
  case (1 c thenS elseS)
  have ih_then: "visit thenS = Some t \<Longrightarrow> visit t = Some t" for t
    using 1(1) by blast
  have ih_else: "visit_else elseS = Some x \<Longrightarrow> visit x = Some x" for x
  proof (cases elseS)
    case None
    assume "visit_else elseS = Some x"
    with None show ?thesis by (simp add: visit_else_def)
  next
    case (Some s)
    assume "visit_else elseS = Some x"
    with Some have "visit s = Some x" by (simp add: visit_else_def)
    with 1(2) [OF refl Some] show ?thesis by blast
  qed
  show ?case
  proof (intro allI impI)
    fix s' assume a: "visit (IfStatement c thenS elseS) = Some s'"
    show "visit s' = Some s'"
    proof (cases "isRemovableStatement thenS \<or> visit thenS = None")
      case True
      with a have "visit_else elseS = Some s'"
        unfolding visit_If by (auto split: if_splits)
      then show ?thesis by (rule ih_else)
    next
      case False
      then obtain t where t: "visit thenS = Some t" by auto
      with a False have s': "s' = IfStatement c t (visit_else elseS)"
        unfolding visit_If by auto
      have tt: "visit t = Some t" using t by (rule ih_then)
      then have nr: "\<not> isRemovableStatement t" by (rule visit_Some_not_removable)
      have "visit_else (visit_else elseS) = visit_else elseS"
      proof (cases "visit_else elseS")
        case None
        then show ?thesis by (simp add: visit_else_def)
      next
        case (Some x)
        then show ?thesis using ih_else [OF Some] by (simp add: visit_else_def)
      qed
      then show ?thesis
        unfolding s' visit_If using tt nr by simp
    qed
  qed
next
  case (2 e)
  then show ?case by (auto simp: shouldRemoveCall_visit_e)
next
  case (8 s ss)
  then show ?case by (auto split: option.splits)
qed auto

section \<open>Properties of the block simplifiers\<close>

lemma singleSimpleStatement_Some:
  "(singleSimpleStatement ss = Some s) =
     (ss = [s] \<and> (isExpressionStatement s \<or> isReturnStatement s))"
  by (cases ss rule: singleSimpleStatement.cases) auto

text \<open>
  In clean3.js a block that is a branch of an if statement loses its braces exactly when
  it holds one statement and that statement is an expression statement or a return
  statement; any other block stays a block (its statements are visited).
\<close>

lemma visit3_then_block:
  "visit3 isElse (IfStatement c (Block ss) elseS) =
     (case singleSimpleStatement ss of
        Some s \<Rightarrow> IfStatement c s (map_option (visit3 True) elseS)
      | None \<Rightarrow> IfStatement (visit3_e c) (Block (visit3_ss ss)) (map_option (visit3 True) elseS))"
  by (cases elseS) (auto split: option.splits)

lemma visit3_else_block:
  "visit3 True (Block ss) =
     (case singleSimpleStatement ss of Some s \<Rightarrow> s | None \<Rightarrow> Block (visit3_ss ss))"
  by (auto split: option.splits)

lemma visit3_keeps_block_around_nested_if:
  "visit3 False if_a_block_else_bar = if_a_block_else_bar"
  by (simp add: if_a_block_else_bar_def if_b_foo_def call_def)

text \<open>
  The simplifier of clean3.js never makes a dangling else: it keeps openness of every
  statement, so a tree that is free of dangling else stays so. The second script does not.
\<close>

lemma simple_not_open:
  "isExpressionStatement s \<or> isReturnStatement s \<Longrightarrow> \<not> open_if s"
  by (cases s) auto

lemma open_if_visit3: "open_if (visit3 isElse s) = open_if s"
proof (induction s arbitrary: isElse rule: open_if.induct)
  case (1 c t)
  then show ?case by (auto split: option.splits)
next
  case (2 c t e)
  then show ?case by (auto split: option.splits)
next
  case (3 ss)
  then show ?case
    using simple_not_open
    by (auto split: option.splits if_splits simp: singleSimpleStatement_Some)
next
  case (5 e)
  then show ?case by (cases e) auto
qed auto

lemma visit3_dangling_free:
  "dangling_free s \<Longrightarrow> dangling_free (visit3 isElse s)"
  "dangling_free_ss ss \<Longrightarrow> dangling_free_ss (visit3_ss ss)"
  "dangling_free_e e \<Longrightarrow> dangling_free_e (visit3_e e)"
  "dangling_free_es es \<Longrightarrow> dangling_free_es (visit3_es es)"
proof (induction isElse s and ss and e and es rule: visit3_visit3_ss_visit3_e_visit3_es.induct)
  case (1 isElse c thenS elseS)
  show ?case
  proof (cases "case blockStatements thenS of None \<Rightarrow> None
                | Some ss \<Rightarrow> singleSimpleStatement ss")
    case None
    show ?thesis
    proof (cases elseS)
      case N: None
      with None 1(1,2,5) show ?thesis by simp
    next
      case (Some e)
      with None 1(1,2,5) 1(3) [OF None Some] show ?thesis
        by (simp add: open_if_visit3)
    qed
  next
    case (Some single)
    then obtain ss where t: "thenS = Block ss" and ss: "singleSimpleStatement ss = Some single"
      by (cases thenS) (auto split: option.splits)
    from ss have s1: "ss = [single]" and simple: "isExpressionStatement single \<or> isReturnStatement single"
      by (auto simp: singleSimpleStatement_Some)
    show ?thesis
    proof (cases elseS)
      case None
      with Some t s1 1(5) show ?thesis by simp
    next
      case E: (Some e)
      with Some t s1 1(5) 1(4) [OF Some E] simple_not_open [OF simple] show ?thesis
        by simp
    qed
  qed
next
  case (2 isElse ss)
  then show ?case
    by (cases "if isElse then singleSimpleStatement ss else None")
       (auto simp: singleSimpleStatement_Some split: if_splits)
qed auto

lemma visit2_introduces_dangling_else:
  "dangling_free if_a_block_else_bar \<and> \<not> dangling_free (visit2 False if_a_block_else_bar)"
  by (simp add: if_a_block_else_bar_def if_b_foo_def call_def)

text \<open>
  C5: the simplifier must leave the block around a single statement that is not an
  expression or return statement. clean3.js does; the second script takes any single
  statement out of its block, so \<open>if (a) { if (b) foo(); } else bar();\<close> becomes
  \<open>if (a) if (b) foo(); else bar();\<close>, in which the else belongs to the inner if.
\<close>

theorem second_simplifier_unbraces_nested_if:
  "visit2 False if_a_block_else_bar =
     IfStatement (Identifier (plain ''a'')) if_b_foo (Some (ExpressionStatement (call ''bar'')))"
  by (simp add: if_a_block_else_bar_def if_b_foo_def call_def)

section \<open>Properties of the file drivers\<close>

text \<open>
  C7, as the claim states it, fails for clean1.js: its driver has no comparison, it writes
  the transformed text back and logs the file as processed also when the text is the
  original.
\<close>

theorem clean1_writes_unchanged_file:
  "writes (processFile1 unchangedCode ''a.ts'' oneFile) = [(''a.ts'', ''x();'')]
   \<and> console (processFile1 unchangedCode ''a.ts'' oneFile) = [Processed ''a.ts'']"
  by (simp add: processFile1_def unchangedCode_def oneFile_def writeFileSync_def consoleLog_def)

text \<open>
  C7, amended. For a file that is read and transformed without an exception: the driver of
  clean3.js (and of the second simplifier script), when the transformed text equals the
  original, writes nothing, leaves the stored contents as they are and logs the file as
  skipped; when the text differs it writes the transformed text and logs the file as
  transformed, or in a dry run writes nothing and logs what it would write. The driver of
  clean1.js always writes the transformed text back and logs the file as processed; when
  that text equals the original the stored contents are the same before and after. A file
  that cannot be read or transformed is logged as an error by both drivers and nothing is
  written.
\<close>

theorem drivers_write_and_report:
  "(files st filePath = Some sourceCode \<and> transformCode sourceCode = Some transformed \<longrightarrow>
      processFile1 transformCode filePath st =
        st\<lparr>files := (files st)(filePath \<mapsto> transformed),
           writes := writes st @ [(filePath, transformed)],
           console := console st @ [Processed filePath]\<rparr>
      \<and> (transformed = sourceCode \<longrightarrow>
            processFile transformCode filePath dryRun st =
              st\<lparr>console := console st @ [Skipped filePath]\<rparr>
            \<and> files (processFile1 transformCode filePath st) = files st)
      \<and> (transformed \<noteq> sourceCode \<and> dryRun \<longrightarrow>
            processFile transformCode filePath dryRun st =
              st\<lparr>console := console st @ [WouldTransform filePath transformed]\<rparr>)
      \<and> (transformed \<noteq> sourceCode \<and> \<not> dryRun \<longrightarrow>
            processFile transformCode filePath dryRun st =
              st\<lparr>files := (files st)(filePath \<mapsto> transformed),
                 writes := writes st @ [(filePath, transformed)],
                 console := console st @ [Transformed filePath]\<rparr>))
   \<and> (files st filePath = None
        \<or> (\<exists>src. files st filePath = Some src \<and> transformCode src = None) \<longrightarrow>
        processFile transformCode filePath dryRun st =
          st\<lparr>console := console st @ [ErrorProcessing filePath]\<rparr>
        \<and> processFile1 transformCode filePath st =
          st\<lparr>console := console st @ [ErrorProcessing filePath]\<rparr>)"
  by (auto simp: processFile_def processFile1_def consoleLog_def writeFileSync_def
      split: option.splits)

theorem drivers_write_and_report_witness:
  "files oneFile ''a.ts'' = Some ''x();'' \<and> unchangedCode ''x();'' = Some ''x();''
   \<and> processFile unchangedCode ''a.ts'' False oneFile
       = oneFile\<lparr>console := [Skipped ''a.ts'']\<rparr>
   \<and> files (processFile1 unchangedCode ''a.ts'' oneFile) = files oneFile
   \<and> writes (processFile1 unchangedCode ''a.ts'' oneFile) = [(''a.ts'', ''x();'')]
   \<and> processFile (\<lambda>s. Some ''y();'') ''a.ts'' True oneFile
       = oneFile\<lparr>console := [WouldTransform ''a.ts'' ''y();'']\<rparr>
   \<and> processFile (\<lambda>s. Some ''y();'') ''a.ts'' False oneFile
       = \<lparr>files = [''a.ts'' \<mapsto> ''y();''], writes = [(''a.ts'', ''y();'')],
          console = [Transformed ''a.ts'']\<rparr>
   \<and> files oneFile ''b.ts'' = None
   \<and> processFile unchangedCode ''b.ts'' False oneFile
       = oneFile\<lparr>console := [ErrorProcessing ''b.ts'']\<rparr>"
  using drivers_write_and_report [of oneFile "''a.ts''" "''x();''" unchangedCode "''x();''" False]
    drivers_write_and_report [of oneFile "''a.ts''" "''x();''" "\<lambda>s. Some ''y();''" "''y();''" True]
    drivers_write_and_report [of oneFile "''a.ts''" "''x();''" "\<lambda>s. Some ''y();''" "''y();''" False]
    drivers_write_and_report [of oneFile "''b.ts''" "''x();''" unchangedCode "''x();''" False]
  by (simp add: unchangedCode_def oneFile_def)

section \<open>Properties of the blank-line filter\<close>

lemma split_nl_not_Nil: "split_nl s \<noteq> []"
  by (induction s) (auto split: list.splits)

lemma split_nl_no_newline: "l \<in> set (split_nl s) \<Longrightarrow> newline \<notin> set l"
  by (induction s arbitrary: l) (auto split: list.splits if_splits)

lemma split_nl_append_no_nl:
  "newline \<notin> set l \<Longrightarrow> split_nl (l @ newline # s) = l # split_nl s"
  by (induction l) auto

lemma split_nl_line: "newline \<notin> set l \<Longrightarrow> split_nl l = [l]"
  by (induction l) auto

lemma split_join:
  "ls \<noteq> [] \<Longrightarrow> \<forall>l \<in> set ls. newline \<notin> set l \<Longrightarrow> split_nl (join_nl ls) = ls"
proof (induction ls rule: join_nl.induct)
  case (3 l l' ls)
  then show ?case by (simp add: split_nl_append_no_nl)
qed (auto simp: split_nl_line)

lemma join_split: "join_nl (split_nl s) = s"
proof (induction s)
  case Nil
  then show ?case by simp
next
  case (Cons c cs)
  obtain l ls where sp: "split_nl cs = l # ls"
    using split_nl_not_Nil [of cs] by (cases "split_nl cs") auto
  show ?case
  proof (cases "c = newline")
    case True
    with Cons sp show ?thesis by simp
  next
    case False
    with Cons sp show ?thesis by (cases ls) auto
  qed
qed

lemma includes_str_iff: "includes_str s t = (\<exists>ps ss. s = ps @ t @ ss)"
proof (induction s)
  case Nil
  then show ?case by auto
next
  case (Cons c cs)
  show ?case
  proof
    assume "includes_str (c # cs) t"
    then consider "prefix t (c # cs)" | "includes_str cs t" by auto
    then show "\<exists>ps ss. c # cs = ps @ t @ ss"
    proof cases
      case 1
      then obtain ss where "c # cs = t @ ss" by (auto simp: prefix_def)
      then have "c # cs = [] @ t @ ss" by simp
      then show ?thesis by blast
    next
      case 2
      with Cons obtain ps ss where "cs = ps @ t @ ss" by auto
      then have "c # cs = (c # ps) @ t @ ss" by simp
      then show ?thesis by blast
    qed
  next
    assume "\<exists>ps ss. c # cs = ps @ t @ ss"
    then obtain ps ss where e: "c # cs = ps @ t @ ss" by auto
    show "includes_str (c # cs) t"
    proof (cases ps)
      case Nil
      with e have "prefix t (c # cs)" by (auto simp: prefix_def)
      then show ?thesis by simp
    next
      case (Cons p ps')
      with e have "cs = ps' @ t @ ss" by simp
      with Cons.IH have "includes_str cs t" by blast
      then show ?thesis by simp
    qed
  qed
qed

lemma trim_empty_iff: "(trim s = []) = (\<forall>c \<in> set s. isWhiteSpace c)"
proof -
  have "(trim s = []) = (\<forall>c \<in> set (dropWhile isWhiteSpace s). isWhiteSpace c)"
    by (simp add: trim_def)
  also have "\<dots> = (\<forall>c \<in> set s. isWhiteSpace c)"
  proof
    assume a: "\<forall>c \<in> set (dropWhile isWhiteSpace s). isWhiteSpace c"
    have "dropWhile isWhiteSpace s = []"
    proof (rule ccontr)
      assume ne: "dropWhile isWhiteSpace s \<noteq> []"
      then have "\<not> isWhiteSpace (hd (dropWhile isWhiteSpace s))"
        by (rule hd_dropWhile)
      moreover have "hd (dropWhile isWhiteSpace s) \<in> set (dropWhile isWhiteSpace s)"
        using ne by simp
      ultimately show False using a by blast
    qed
    then show "\<forall>c \<in> set s. isWhiteSpace c" by simp
  next
    assume "\<forall>c \<in> set s. isWhiteSpace c"
    then show "\<forall>c \<in> set (dropWhile isWhiteSpace s). isWhiteSpace c"
      using set_dropWhileD by fastforce
  qed
  finally show ?thesis .
qed

lemma keepLine_spec: "keepLine line = (\<not> spec_dropLine line)"
  using trim_empty_iff [of line]
  by (auto simp: keepLine_def spec_dropLine_def includes_str_iff)

lemma keepLine_spec_fun: "keepLine = (\<lambda>line. \<not> spec_dropLine line)"
  by (rule ext) (rule keepLine_spec)

lemma filterEmptyLines_idem: "filterEmptyLines (filterEmptyLines x) = filterEmptyLines x"
proof (cases "filter keepLine (split_nl x) = []")
  case True
  then have "filterEmptyLines x = []" by (simp add: filterEmptyLines_def)
  moreover have "filterEmptyLines [] = []"
    by (simp add: filterEmptyLines_def keepLine_def trim_def)
  ultimately show ?thesis by simp
next
  case False
  let ?k = "filter keepLine (split_nl x)"
  have "\<forall>l \<in> set ?k. newline \<notin> set l" by (auto dest: split_nl_no_newline)
  with False have "split_nl (join_nl ?k) = ?k" by (rule split_join)
  then show ?thesis by (simp add: filterEmptyLines_def)
qed

text \<open>
  C6, as the claim states it, fails for the text pass of clean3.js: \<open>postProcessCode\<close>
  has no marker test, keeps one blank line of every run of blank lines, and takes the
  indentation off a line that begins with \<open>if\<close>, \<open>else\<close> or \<open>return\<close>. In
  \<open>a();\<close>, blank line, \<open>b();\<close> the blank line stays; in \<open>f();\<close>, \<open>    return x;\<close> the
  second line, which is kept, is changed.
\<close>

theorem postProcessCode_keeps_blank_line_and_changes_lines:
  "split_nl ''a();\<newline>\<newline>b();'' = [''a();'', [], ''b();'']
   \<and> split_nl (postProcessCode ''a();\<newline>\<newline>b();'') = [''a();'', [], ''b();'']
   \<and> split_nl ''f();\<newline>    return x;'' = [''f();'', ''    return x;'']
   \<and> split_nl (postProcessCode ''f();\<newline>    return x;'') = [''f();'', ''return x;'']"
  by code_simp

text \<open>
  C6, amended: the filter of clean1.js after printing. The lines of a text are the pieces
  between its line feeds. The filter puts out the lines of its input that contain the
  marker or have a character that is not white space, in their order and as they are,
  joined by line feeds: the lines of the output are those lines (when none is kept the
  output is the empty text). A line is dropped iff it has no marker and is blank.
\<close>

theorem filter_keeps_marked_or_nonblank_lines:
  "join_nl (split_nl printed) = printed
   \<and> filterEmptyLines printed =
       join_nl (filter (\<lambda>line. \<not> spec_dropLine line) (split_nl printed))
   \<and> (filter (\<lambda>line. \<not> spec_dropLine line) (split_nl printed) \<noteq> [] \<longrightarrow>
        split_nl (filterEmptyLines printed) =
          filter (\<lambda>line. \<not> spec_dropLine line) (split_nl printed))
   \<and> (filter (\<lambda>line. \<not> spec_dropLine line) (split_nl printed) = [] \<longrightarrow>
        filterEmptyLines printed = [])"
proof -
  let ?k = "filter (\<lambda>line. \<not> spec_dropLine line) (split_nl printed)"
  have f: "filterEmptyLines printed = join_nl ?k"
    by (simp add: filterEmptyLines_def keepLine_spec_fun)
  have "split_nl (join_nl ?k) = ?k" if "?k \<noteq> []"
  proof -
    have "\<forall>l \<in> set ?k. newline \<notin> set l" by (auto dest: split_nl_no_newline)
    with that show ?thesis by (rule split_join)
  qed
  with f show ?thesis by (simp add: join_split)
qed

theorem filter_keeps_marked_or_nonblank_lines_witness:
  "filter (\<lambda>line. \<not> spec_dropLine line)
      (split_nl ''x();\<newline>  \<newline>// eslint-disable\<newline>\<newline>y();'') \<noteq> []
   \<and> split_nl ''x();\<newline>  \<newline>// eslint-disable\<newline>\<newline>y();''
       = [''x();'', ''  '', ''// eslint-disable'', '''', ''y();'']
   \<and> split_nl (filterEmptyLines ''x();\<newline>  \<newline>// eslint-disable\<newline>\<newline>y();'')
       = [''x();'', ''// eslint-disable'', ''y();'']
   \<and> filter (\<lambda>line. \<not> spec_dropLine line) (split_nl '' \<newline>'') = []
   \<and> filterEmptyLines '' \<newline>'' = []"
proof -
  have k: "(\<lambda>line. \<not> spec_dropLine line) = keepLine"
    by (simp add: keepLine_spec_fun)
  show ?thesis
    using filter_keeps_marked_or_nonblank_lines
            [of "''x();\<newline>  \<newline>// eslint-disable\<newline>\<newline>y();''"]
          filter_keeps_marked_or_nonblank_lines [of "'' \<newline>''"]
    unfolding k
    by (simp add: newline_def keepLine_def trim_def isWhiteSpace_def)
qed

section \<open>Running a pass twice\<close>

text \<open>
  C4, as the claim states it, fails at the block simplifier: where it takes a statement
  out of its block it returns the statement without visiting it, so the if statements in
  a callback of that statement are simplified only by a second run. On
  \<open>if (a) { foo(function () { if (b) { bar(); } }); }\<close> the second run changes the tree
  again.
\<close>

theorem simplifier_second_run_changes_tree:
  "visit3_ss [if_a_foo_callback] =
     [IfStatement (Identifier (plain ''a''))
        (ExpressionStatement (CallExpression (Identifier (plain ''foo'')) [callback])) None]
   \<and> visit3_ss (visit3_ss [if_a_foo_callback]) \<noteq> visit3_ss [if_a_foo_callback]"
  by (simp add: if_a_foo_callback_def callback_def call_def)

text \<open>
  C4, amended: the blank-line filter run on its own output changes nothing, and the
  conditional rewriter run on its own output changes nothing.
\<close>

theorem filter_and_rewriter_idempotent:
  "filterEmptyLines (filterEmptyLines x) = filterEmptyLines x
   \<and> rewriteSourceFile (rewriteSourceFile statements) = rewriteSourceFile statements"
  by (simp add: filterEmptyLines_idem rewriteSourceFile_def visit_idem(2))

theorem filter_and_rewriter_idempotent_witness:
  "filterEmptyLines ''x();\<newline>\<newline>y();'' = ''x();\<newline>y();''
   \<and> filterEmptyLines ''x();\<newline>y();'' = ''x();\<newline>y();''
   \<and> rewriteSourceFile [if_b_log, IfStatement (Identifier (plain ''c'')) (Block [log_a]) None, doWork]
       = [IfStatement (Identifier (plain ''c'')) (Block []) None, doWork]
   \<and> rewriteSourceFile [IfStatement (Identifier (plain ''c'')) (Block []) None, doWork]
       = [IfStatement (Identifier (plain ''c'')) (Block []) None, doWork]"
  using filter_and_rewriter_idempotent
          [of "''x();\<newline>\<newline>y();''"
              "[if_b_log, IfStatement (Identifier (plain ''c'')) (Block [log_a]) None, doWork]"]
  by (simp add: filterEmptyLines_def newline_def keepLine_def trim_def isWhiteSpace_def
      rewriteSourceFile_def if_b_log_def log_a_def console_log_a_def doWork_def call_def)

end
